theory Spec2Isabelle
  imports Main
begin

section \<open>Strings and console\<close>

text \<open>
  Go strings are byte sequences; they are modelled as \<open>string\<close> (a list of 8-bit
  characters). \<open>strings.TrimSpace\<close> removes leading and trailing Unicode white space:
  the six ASCII white-space bytes and the UTF-8 encodings of U+0085, U+00A0, U+1680,
  U+2000..U+200A, U+2028, U+2029, U+202F, U+205F and U+3000.
\<close>

definition asciiSpace :: "char \<Rightarrow> bool" where
  "asciiSpace c = (c = CHR '' '' \<or> c = CHR 0x09 \<or> c = CHR 0x0A \<or> c = CHR 0x0B
                   \<or> c = CHR 0x0C \<or> c = CHR 0x0D)"

text \<open>Number of bytes of the white-space rune a string starts with (0 when it starts with none).\<close>

fun spaceLen :: "string \<Rightarrow> nat" where
  "spaceLen [] = 0"
| "spaceLen (c # cs) =
     (if asciiSpace c then 1
      else if c = CHR 0xC2 then
        (case cs of d # _ \<Rightarrow> if d = CHR 0x85 \<or> d = CHR 0xA0 then 2 else 0 | [] \<Rightarrow> 0)
      else if c = CHR 0xE1 then
        (case cs of d # e # _ \<Rightarrow> if d = CHR 0x9A \<and> e = CHR 0x80 then 3 else 0 | _ \<Rightarrow> 0)
      else if c = CHR 0xE2 then
        (case cs of d # e # _ \<Rightarrow>
           if d = CHR 0x80 \<and> (of_char e \<in> {0x80 .. (0x8A::nat)} \<or> e = CHR 0xA8
                               \<or> e = CHR 0xA9 \<or> e = CHR 0xAF) then 3
           else if d = CHR 0x81 \<and> e = CHR 0x9F then 3 else 0
         | _ \<Rightarrow> 0)
      else if c = CHR 0xE3 then
        (case cs of d # e # _ \<Rightarrow> if d = CHR 0x80 \<and> e = CHR 0x80 then 3 else 0 | _ \<Rightarrow> 0)
      else 0)"

text \<open>The same for the last rune, on the reversed string.\<close>

fun spaceLenRev :: "string \<Rightarrow> nat" where
  "spaceLenRev [] = 0"
| "spaceLenRev (c # cs) =
     (if asciiSpace c then 1
      else (case cs of
              d # rest \<Rightarrow>
                if spaceLen [d, c] = 2 then 2
                else (case rest of e # _ \<Rightarrow> if spaceLen [e, d, c] = 3 then 3 else 0 | [] \<Rightarrow> 0)
            | [] \<Rightarrow> 0))"

function trimLeft :: "(string \<Rightarrow> nat) \<Rightarrow> string \<Rightarrow> string" where
  "trimLeft f s = (if f s = 0 \<or> s = [] then s else trimLeft f (drop (f s) s))"
  by pat_completeness auto
termination
  by (relation "measure (\<lambda>(f, s). length s)") auto

definition TrimSpace :: "string \<Rightarrow> string" where
  "TrimSpace s = rev (trimLeft spaceLenRev (rev (trimLeft spaceLen s)))"

text \<open>
  \<open>strings.ToLower\<close> on ASCII letters. A rune outside ASCII is left as it is here, where Go
  maps it to its Unicode lower case; no such rune has the lower case \<open>y\<close>, and the
  program only compares the result with \<open>"y"\<close>.
\<close>

definition lowerByte :: "char \<Rightarrow> char" where
  "lowerByte c = (if 65 \<le> (of_char c :: nat) \<and> (of_char c :: nat) \<le> 90
                  then char_of (of_char c + (32::nat)) else c)"

definition ToLower :: "string \<Rightarrow> string" where
  "ToLower s = map lowerByte s"

text \<open>Decimal rendering of an integer, as the verb \<open>%d\<close> prints it.\<close>

definition digitChar :: "nat \<Rightarrow> char" where
  "digitChar n = char_of (48 + n mod 10)"

function showNat :: "nat \<Rightarrow> string" where
  "showNat n = (if n < 10 then [digitChar n] else showNat (n div 10) @ [digitChar (n mod 10)])"
  by pat_completeness auto
termination
  by (relation "measure id") auto

definition showInt :: "int \<Rightarrow> string" where
  "showInt i = (if i < 0 then CHR ''-'' # showNat (nat (- i)) else showNat (nat i))"

section \<open>Remote service and session state\<close>

record CalendarListEntry =
  cal_Id :: string
  cal_Summary :: string

record EventDateTime =
  dt_Date :: string
  dt_DateTime :: string
  dt_TimeZone :: string

record EventAttendee =
  att_Email :: string
  att_ResponseStatus :: string

text \<open>\<open>Start\<close> and \<open>End\<close> are pointers in the client library: \<open>None\<close> is \<open>nil\<close>.\<close>

record Event =
  ev_Id :: string
  ev_Summary :: string
  ev_Description :: string
  ev_Start :: "EventDateTime option"
  ev_End :: "EventDateTime option"
  ev_Status :: string
  ev_Attendees :: "EventAttendee list"

text \<open>
  The remote calendar service is an opaque boundary: a session is given the answers the
  service returns (\<open>Inl\<close> carries the remote error text), and records each request it issues.
\<close>

record service =
  CalendarList_List :: "string + CalendarListEntry list"
  Events_Get :: "string \<Rightarrow> string \<Rightarrow> string + Event"
  Events_Insert :: "string \<Rightarrow> Event \<Rightarrow> string + Event"
  Events_Update :: "string \<Rightarrow> string \<Rightarrow> Event \<Rightarrow> string + Event"
  Events_Delete :: "string \<Rightarrow> string \<Rightarrow> string option"

datatype call =
    CallCalendarList
  | CallInsert string Event
  | CallGet string string
  | CallUpdate string string Event
  | CallDelete string string

text \<open>
  Standard input is the list of the lines still to come (each was ended by a newline,
  which is not part of the element); standard output is the list of the texts printed so
  far; \<open>calls\<close> is the log of the remote requests issued so far.
\<close>

record world =
  stdin :: "string list"
  stdout :: "string list"
  calls :: "call list"

datatype parse_error = BadValue | OutOfRange string | ExtraText

datatype error =
    ReadError
  | InvalidFormat string parse_error
  | ValidationError string
  | InvalidSelection string
  | NoCalendars string
  | RemoteError string string
  | NilDereference

definition print :: "string \<Rightarrow> world \<Rightarrow> world" where
  "print s w = w\<lparr>stdout := stdout w @ [s]\<rparr>"

definition issue :: "call \<Rightarrow> world \<Rightarrow> world" where
  "issue c w = w\<lparr>calls := calls w @ [c]\<rparr>"

text \<open>
  \<open>promptForInput\<close>: print the label, read up to the next newline, trim. A read that
  meets the end of input before a newline is an error.
\<close>

definition promptForInput :: "string \<Rightarrow> world \<Rightarrow> (error + string) \<times> world" where
  "promptForInput msg w =
     (let w1 = print msg w in
      case stdin w1 of
        [] \<Rightarrow> (Inl ReadError, w1)
      | input # rest \<Rightarrow> (Inr (TrimSpace input), w1\<lparr>stdin := rest\<rparr>))"

section \<open>Time\<close>

text \<open>
  The standard library's \<open>time.Time\<close>: an instant (seconds and nanoseconds; the seconds
  are counted from 0001-01-01T00:00:00Z, the library's zero \<open>Time{}\<close>) and the offset,
  in seconds east of UTC, of the location it is rendered in. \<open>Before\<close> compares
  instants only.
\<close>

record Time =
  t_sec :: int
  t_nsec :: int
  t_offset :: int

definition zeroTime :: Time where
  "zeroTime = \<lparr>t_sec = 0, t_nsec = 0, t_offset = 0\<rparr>"

definition Before :: "Time \<Rightarrow> Time \<Rightarrow> bool" where
  "Before t u = (t_sec t < t_sec u \<or> (t_sec t = t_sec u \<and> t_nsec t < t_nsec u))"

definition Equal :: "Time \<Rightarrow> Time \<Rightarrow> bool" where
  "Equal t u = (t_sec t = t_sec u \<and> t_nsec t = t_nsec u)"

definition isLeap :: "int \<Rightarrow> bool" where
  "isLeap year = (year mod 4 = 0 \<and> (year mod 100 \<noteq> 0 \<or> year mod 400 = 0))"

definition daysBefore :: "int list" where
  "daysBefore = [0, 31, 59, 90, 120, 151, 181, 212, 243, 273, 304, 334, 365]"

definition daysIn :: "int \<Rightarrow> int \<Rightarrow> int" where
  "daysIn m year =
     (if m = 2 \<and> isLeap year then 29 else daysBefore ! nat m - daysBefore ! nat (m - 1))"

text \<open>Days from the epoch to 1 January of a year: 400-, 100-, 4- and 1-year cycles.\<close>

definition daysSinceEpoch :: "int \<Rightarrow> int" where
  "daysSinceEpoch year =
     (let y = year - 1;
          n400 = y div 400; y1 = y - 400 * n400;
          n100 = y1 div 100; y2 = y1 - 100 * n100;
          n4 = y2 div 4; y3 = y2 - 4 * n4
      in 146097 * n400 + 36524 * n100 + 1461 * n4 + 365 * y3)"

text \<open>
  \<open>time.Date\<close> in UTC, for fields already in range (\<open>Parse\<close> checks the ranges before
  it calls \<open>Date\<close>, so the normalisation of overflowing fields is the identity there).
\<close>

definition Date :: "int \<Rightarrow> int \<Rightarrow> int \<Rightarrow> int \<Rightarrow> int \<Rightarrow> int \<Rightarrow> int \<Rightarrow> Time" where
  "Date year month day hour minute sec nsec =
     (let d = daysSinceEpoch year + daysBefore ! nat (month - 1)
              + (if isLeap year \<and> month \<ge> 3 then 1 else 0) + (day - 1)
      in \<lparr>t_sec = d * 86400 + hour * 3600 + minute * 60 + sec, t_nsec = nsec, t_offset = 0\<rparr>)"

text \<open>The inverse: the year and the day within the year of a day count.\<close>

definition yearOfDays :: "int \<Rightarrow> int \<times> int" where
  "yearOfDays days =
     (let n400 = days div 146097; d1 = days - 146097 * n400;
          m100 = d1 div 36524; n100 = m100 - m100 div 4; d2 = d1 - 36524 * n100;
          n4 = d2 div 1461; d3 = d2 - 1461 * n4;
          m1 = d3 div 365; n1 = m1 - m1 div 4; d4 = d3 - 365 * n1
      in (400 * n400 + 100 * n100 + 4 * n4 + n1 + 1, d4))"

definition monthDay :: "int \<Rightarrow> int \<Rightarrow> int \<times> int" where
  "monthDay year yday =
     (if isLeap year \<and> yday = 31 + 29 - 1 then (2, 29)
      else
        let day = (if isLeap year \<and> yday > 31 + 29 - 1 then yday - 1 else yday);
            month = day div 31;
            end = daysBefore ! nat (month + 1)
        in if day \<ge> end then (month + 2, day - end + 1)
           else (month + 1, day - daysBefore ! nat month + 1))"

text \<open>\<open>appendInt\<close>: a sign for a negative number, then the decimal digits padded with zeros.\<close>

definition appendInt :: "int \<Rightarrow> nat \<Rightarrow> string" where
  "appendInt x width =
     (let ds = showNat (nat \<bar>x\<bar>)
      in (if x < 0 then ''-'' else []) @ replicate (width - length ds) CHR ''0'' @ ds)"

text \<open>
  \<open>t.Format(time.RFC3339)\<close>, layout \<open>2006-01-02T15:04:05Z07:00\<close>: the zone is \<open>Z\<close> for
  the offset 0 and a signed \<open>hh:mm\<close> otherwise (the division by 60 truncates towards zero).
\<close>

definition formatZone :: "int \<Rightarrow> string" where
  "formatZone offset =
     (if offset = 0 then ''Z''
      else let zone = \<bar>offset\<bar> div 60
           in (if offset \<le> - 60 then ''-'' else ''+'')
              @ appendInt (zone div 60) 2 @ '':'' @ appendInt (zone mod 60) 2)"

definition Format_RFC3339 :: "Time \<Rightarrow> string" where
  "Format_RFC3339 t =
     (let abs = t_sec t + t_offset t;
          days = abs div 86400; secs = abs mod 86400;
          (year, yday) = yearOfDays days;
          (month, day) = monthDay year yday
      in appendInt year 4 @ ''-'' @ appendInt month 2 @ ''-'' @ appendInt day 2 @ ''T''
         @ appendInt (secs div 3600) 2 @ '':'' @ appendInt (secs mod 3600 div 60) 2 @ '':''
         @ appendInt (secs mod 60) 2 @ formatZone (t_offset t))"

subsection \<open>Parsing\<close>

definition isDigit :: "char \<Rightarrow> bool" where
  "isDigit c = (48 \<le> (of_char c :: nat) \<and> (of_char c :: nat) \<le> 57)"

definition digitVal :: "char \<Rightarrow> nat" where
  "digitVal c = (of_char c :: nat) - 48"

definition decimalValue :: "string \<Rightarrow> nat" where
  "decimalValue ds = foldl (\<lambda>acc c. 10 * acc + digitVal c) 0 ds"

definition isDigitAt :: "string \<Rightarrow> nat \<Rightarrow> bool" where
  "isDigitAt s i = (i < length s \<and> isDigit (s ! i))"

text \<open>\<open>getnum\<close>: a one- or two-digit number; \<open>fixed\<close> demands two digits.\<close>

definition getnum :: "string \<Rightarrow> bool \<Rightarrow> (int \<times> string) option" where
  "getnum s fixed =
     (if \<not> isDigitAt s 0 then None
      else if \<not> isDigitAt s 1 then
        (if fixed then None else Some (int (digitVal (s ! 0)), drop 1 s))
      else Some (int (digitVal (s ! 0)) * 10 + int (digitVal (s ! 1)), drop 2 s))"

text \<open>\<open>atoi\<close>: an optional sign and digits only (inputs here have at most nine digits).\<close>

definition atoi :: "string \<Rightarrow> int option" where
  "atoi s =
     (let neg = (s \<noteq> [] \<and> hd s = CHR ''-'');
          s1 = (if s \<noteq> [] \<and> (hd s = CHR ''-'' \<or> hd s = CHR ''+'') then tl s else s)
      in if list_all isDigit s1
         then Some (if neg then - int (decimalValue s1) else int (decimalValue s1))
         else None)"

definition cutspace :: "string \<Rightarrow> string" where
  "cutspace s = dropWhile (\<lambda>c. c = CHR '' '') s"

text \<open>
  \<open>skip\<close> removes a literal prefix of the layout from the value; a space of the layout
  stands for any run of spaces in the value.
\<close>

function skip :: "string \<Rightarrow> string \<Rightarrow> string option" where
  "skip v [] = Some v"
| "skip v (p # ps) =
     (if p = CHR '' '' then
        (if v \<noteq> [] \<and> hd v \<noteq> CHR '' '' then None else skip (cutspace v) (cutspace ps))
      else (case v of [] \<Rightarrow> None | c # cs \<Rightarrow> if c \<noteq> p then None else skip cs ps))"
  by pat_completeness auto
termination
  by (relation "measure (\<lambda>(v, p). length p)")
     (auto simp: cutspace_def less_Suc_eq_le length_dropWhile_le)

text \<open>
  The elements of the two layouts the program uses. \<open>timeFormat\<close> is
  \<open>2006-01-02 15:04\<close> and \<open>RFC3339\<close> is \<open>2006-01-02T15:04:05Z07:00\<close>; each is given as
  the list of its elements with the literal text in front of each.
\<close>

datatype std = stdLongYear | stdZeroMonth | stdZeroDay | stdHour | stdZeroMinute
  | stdZeroSecond | stdISO8601ColonTZ

definition timeFormat :: "(string \<times> std) list" where
  "timeFormat = [([], stdLongYear), (''-'', stdZeroMonth), (''-'', stdZeroDay),
                 ('' '', stdHour), ('':'', stdZeroMinute)]"

definition RFC3339 :: "(string \<times> std) list" where
  "RFC3339 = [([], stdLongYear), (''-'', stdZeroMonth), (''-'', stdZeroDay),
              (''T'', stdHour), ('':'', stdZeroMinute), ('':'', stdZeroSecond),
              ([], stdISO8601ColonTZ)]"

record parts =
  p_year :: int
  p_month :: int
  p_day :: int
  p_hour :: int
  p_min :: int
  p_sec :: int
  p_nsec :: int
  p_zone :: "int option"

definition noParts :: parts where
  "noParts = \<lparr>p_year = 0, p_month = 1, p_day = 1, p_hour = 0, p_min = 0, p_sec = 0,
               p_nsec = 0, p_zone = None\<rparr>"

text \<open>
  A fractional second after the seconds is read although the layout has none: a period
  or comma and digits, of which the first nine count.
\<close>

definition fracSecond :: "string \<Rightarrow> int \<times> string" where
  "fracSecond v =
     (if length v \<ge> 2 \<and> (v ! 0 = CHR ''.'' \<or> v ! 0 = CHR '','') \<and> isDigitAt v 1 then
        (let ds = takeWhile isDigit (tl v); ds9 = take 9 ds
         in (int (decimalValue ds9) * 10 ^ (9 - length ds9), drop (1 + length ds) v))
      else (0, v))"

definition parseZone :: "string \<Rightarrow> parse_error + (int \<times> string)" where
  "parseZone v =
     (if v \<noteq> [] \<and> hd v = CHR ''Z'' then Inr (0, tl v)
      else if length v < 6 then Inl BadValue
      else if v ! 3 \<noteq> CHR '':'' then Inl BadValue
      else
        (case getnum (take 2 (drop 1 v)) True of
           None \<Rightarrow> Inl BadValue
         | Some (hr, _) \<Rightarrow>
             (case getnum (take 2 (drop 4 v)) True of
                None \<Rightarrow> Inl BadValue
              | Some (mm, _) \<Rightarrow>
                  if hr > 24 then Inl (OutOfRange ''time zone offset hour'')
                  else if mm > 60 then Inl (OutOfRange ''time zone offset minute'')
                  else if v ! 0 = CHR ''+'' then Inr ((hr * 60 + mm) * 60, drop 6 v)
                  else if v ! 0 = CHR ''-'' then Inr (- ((hr * 60 + mm) * 60), drop 6 v)
                  else Inl BadValue)))"

fun parseStd :: "std \<Rightarrow> string \<Rightarrow> parts \<Rightarrow> parse_error + (string \<times> parts)" where
  "parseStd stdLongYear v p =
     (if length v < 4 \<or> \<not> isDigitAt v 0 then Inl BadValue
      else (case atoi (take 4 v) of
              None \<Rightarrow> Inl BadValue
            | Some y \<Rightarrow> Inr (drop 4 v, p\<lparr>p_year := y\<rparr>)))"
| "parseStd stdZeroMonth v p =
     (case getnum v True of
        None \<Rightarrow> Inl BadValue
      | Some (m, v') \<Rightarrow>
          if m \<le> 0 \<or> 12 < m then Inl (OutOfRange ''month'') else Inr (v', p\<lparr>p_month := m\<rparr>))"
| "parseStd stdZeroDay v p =
     (case getnum v True of
        None \<Rightarrow> Inl BadValue
      | Some (d, v') \<Rightarrow> Inr (v', p\<lparr>p_day := d\<rparr>))"
| "parseStd stdHour v p =
     (case getnum v False of
        None \<Rightarrow> Inl BadValue
      | Some (h, v') \<Rightarrow>
          if h < 0 \<or> 24 \<le> h then Inl (OutOfRange ''hour'') else Inr (v', p\<lparr>p_hour := h\<rparr>))"
| "parseStd stdZeroMinute v p =
     (case getnum v True of
        None \<Rightarrow> Inl BadValue
      | Some (m, v') \<Rightarrow>
          if m < 0 \<or> 60 \<le> m then Inl (OutOfRange ''minute'') else Inr (v', p\<lparr>p_min := m\<rparr>))"
| "parseStd stdZeroSecond v p =
     (case getnum v True of
        None \<Rightarrow> Inl BadValue
      | Some (s, v') \<Rightarrow>
          if s < 0 \<or> 60 \<le> s then Inl (OutOfRange ''second'')
          else (case fracSecond v' of (ns, v'') \<Rightarrow> Inr (v'', p\<lparr>p_sec := s, p_nsec := ns\<rparr>)))"
| "parseStd stdISO8601ColonTZ v p =
     (case parseZone v of
        Inl e \<Rightarrow> Inl e
      | Inr (off, v') \<Rightarrow> Inr (v', p\<lparr>p_zone := Some off\<rparr>))"

fun parseChunks :: "(string \<times> std) list \<Rightarrow> string \<Rightarrow> parts \<Rightarrow> parse_error + (string \<times> parts)" where
  "parseChunks [] v p = Inr (v, p)"
| "parseChunks ((prefix, s) # layout) v p =
     (case skip v prefix of
        None \<Rightarrow> Inl BadValue
      | Some v1 \<Rightarrow>
          (case parseStd s v1 p of
             Inl e \<Rightarrow> Inl e
           | Inr (v2, p2) \<Rightarrow> parseChunks layout v2 p2))"

text \<open>
  \<open>time.Parse(layout, value)\<close>: the elements in turn, no text left over, the day within
  the month's length; without a zone in the value the time is in UTC, with one the
  instant is moved by the offset and the offset kept as the location.
\<close>

definition time_Parse :: "(string \<times> std) list \<Rightarrow> string \<Rightarrow> parse_error + Time" where
  "time_Parse layout v =
     (case parseChunks layout v noParts of
        Inl e \<Rightarrow> Inl e
      | Inr (rest, p) \<Rightarrow>
          if rest \<noteq> [] then Inl ExtraText
          else if p_day p < 1 \<or> p_day p > daysIn (p_month p) (p_year p) then Inl (OutOfRange ''day'')
          else
            (let t = Date (p_year p) (p_month p) (p_day p) (p_hour p) (p_min p) (p_sec p) (p_nsec p)
             in case p_zone p of
                  None \<Rightarrow> Inr t
                | Some off \<Rightarrow> Inr (t\<lparr>t_sec := t_sec t - off, t_offset := off\<rparr>)))"

text \<open>\<open>start, _ := time.Parse(...)\<close>: the error is dropped and the zero time used.\<close>

definition parseOrZero :: "(string \<times> std) list \<Rightarrow> string \<Rightarrow> Time" where
  "parseOrZero layout v = (case time_Parse layout v of Inl _ \<Rightarrow> zeroTime | Inr t \<Rightarrow> t)"

definition parseTime :: "string \<Rightarrow> error + string" where
  "parseTime input =
     (case time_Parse timeFormat input of
        Inl err \<Rightarrow> Inl (InvalidFormat ''invalid time format (use YYYY-MM-DD HH:MM): '' err)
      | Inr t \<Rightarrow> Inr (Format_RFC3339 t))"

section \<open>Calendar selector\<close>

text \<open>
  \<open>fmt.Sscanf(s, "%d", new(int))\<close>: after leading blanks an optional sign, then the
  longest run of decimal digits and underscores, which must not be empty; the token is
  converted by \<open>strconv.ParseInt(tok, 10, 64)\<close>, which refuses underscores and values
  outside the 64-bit range. Input after the token is not looked at. \<open>scanInt\<close> is the
  value stored through the pointer; \<open>Sscanf_d\<close> is what the call returns: the number of
  items parsed (0 or 1) and whether there was an error.
\<close>

definition scanInt :: "string \<Rightarrow> int option" where
  "scanInt s =
     (let s1 = dropWhile (\<lambda>c. c = CHR '' '' \<or> c = CHR 0x09 \<or> c = CHR 0x0D) s;
          neg = (s1 \<noteq> [] \<and> hd s1 = CHR ''-'');
          s2 = (if s1 \<noteq> [] \<and> (hd s1 = CHR ''+'' \<or> hd s1 = CHR ''-'') then tl s1 else s1);
          tok = takeWhile (\<lambda>c. isDigit c \<or> c = CHR ''_'') s2
      in if tok = [] \<or> CHR ''_'' \<in> set tok then None
         else let v = (if neg then - int (decimalValue tok) else int (decimalValue tok))
              in if - (2 ^ 63) \<le> v \<and> v < 2 ^ 63 then Some v else None)"

definition Sscanf_d :: "string \<Rightarrow> int \<times> bool" where
  "Sscanf_d s = (case scanInt s of Some v \<Rightarrow> (1, True) | None \<Rightarrow> (0, False))"

fun printCalendars :: "nat \<Rightarrow> CalendarListEntry list \<Rightarrow> world \<Rightarrow> world" where
  "printCalendars i [] w = w"
| "printCalendars i (cal # cals) w =
     printCalendars (Suc i) cals
       (print (showInt (int i + 1) @ '') '' @ cal_Summary cal
               @ [CHR '' '', CHR 0xE2, CHR 0x86, CHR 0x92, CHR '' ''] @ cal_Id cal @ [CHR 0x0A]) w)"

definition listCalendars :: "service \<Rightarrow> world \<Rightarrow> (error + CalendarListEntry list) \<times> world" where
  "listCalendars srv w =
     (let w1 = issue CallCalendarList w in
      case CalendarList_List srv of
        Inl e \<Rightarrow> (Inl (RemoteError ''unable to retrieve calendars: '' e), w1)
      | Inr items \<Rightarrow>
          (Inr items,
           print [CHR 0x0A]
             (printCalendars 0 items (print (CHR 0x0A # ''Available calendars:'' @ [CHR 0x0A]) w1))))"

definition selectCalendar :: "service \<Rightarrow> world \<Rightarrow> (error + string) \<times> world" where
  "selectCalendar srv w =
     (case listCalendars srv w of
        (Inl e, w1) \<Rightarrow> (Inl e, w1)
      | (Inr calendars, w1) \<Rightarrow>
          if length calendars = 0 then (Inl (NoCalendars ''no calendars found in your account''), w1)
          else
            (case promptForInput ''Enter calendar number or ID: '' w1 of
               (Inl e, w2) \<Rightarrow> (Inl e, w2)
             | (Inr calendarSelection, w2) \<Rightarrow>
                 (case Sscanf_d calendarSelection of
                    (index, ok) \<Rightarrow>
                      if ok \<and> index > 0 then
                        (case Sscanf_d calendarSelection of
                           (idx, _) \<Rightarrow>
                             if idx \<le> int (length calendars) \<and> idx > 0
                             then (Inr (cal_Id (calendars ! nat (idx - 1))), w2)
                             else (Inl (InvalidSelection ''invalid calendar number''), w2))
                      else (Inr calendarSelection, w2))))"

section \<open>Delete\<close>

definition deleteEvent :: "service \<Rightarrow> string \<Rightarrow> world \<Rightarrow> (error + unit) \<times> world" where
  "deleteEvent srv calendarID w =
     (case promptForInput ''Event ID to delete: '' w of
        (Inl e, w1) \<Rightarrow> (Inl e, w1)
      | (Inr id', w1) \<Rightarrow>
          (case promptForInput (''Are you sure you want to delete event '' @ id' @ ''? (y/n): '') w1 of
             (Inl e, w2) \<Rightarrow> (Inl e, w2)
           | (Inr confirm, w2) \<Rightarrow>
               if ToLower confirm \<noteq> ''y'' then (Inr (), print (''Deletion cancelled.'' @ [CHR 0x0A]) w2)
               else
                 (let w3 = issue (CallDelete calendarID id') w2 in
                  case Events_Delete srv calendarID id' of
                    Some e \<Rightarrow> (Inl (RemoteError ''unable to delete event: '' e), w3)
                  | None \<Rightarrow> (Inr (), print (''Event deleted successfully.'' @ [CHR 0x0A]) w3))))"

section \<open>Create and Update\<close>

definition timeZone :: string where
  "timeZone = ''Asia/Kolkata''"

definition createEvent :: "service \<Rightarrow> string \<Rightarrow> world \<Rightarrow> (error + unit) \<times> world" where
  "createEvent srv calendarID w =
     (case promptForInput ''Title: '' w of
        (Inl e, w1) \<Rightarrow> (Inl e, w1)
      | (Inr title, w1) \<Rightarrow>
     (case promptForInput ''Description: '' w1 of
        (Inl e, w2) \<Rightarrow> (Inl e, w2)
      | (Inr desc, w2) \<Rightarrow>
     (case promptForInput ''Start (YYYY-MM-DD HH:MM): '' w2 of
        (Inl e, w3) \<Rightarrow> (Inl e, w3)
      | (Inr startInput, w3) \<Rightarrow>
     (case parseTime startInput of
        Inl e \<Rightarrow> (Inl e, w3)
      | Inr startTime \<Rightarrow>
     (case promptForInput ''End   (YYYY-MM-DD HH:MM): '' w3 of
        (Inl e, w4) \<Rightarrow> (Inl e, w4)
      | (Inr endInput, w4) \<Rightarrow>
     (case parseTime endInput of
        Inl e \<Rightarrow> (Inl e, w4)
      | Inr endTime \<Rightarrow>
          (let start = parseOrZero RFC3339 startTime;
               end = parseOrZero RFC3339 endTime
           in if Before end start
              then (Inl (ValidationError ''end time cannot be before start time''), w4)
              else
                (let event = \<lparr>ev_Id = [], ev_Summary = title, ev_Description = desc,
                       ev_Start = Some \<lparr>dt_Date = [], dt_DateTime = startTime, dt_TimeZone = timeZone\<rparr>,
                       ev_End = Some \<lparr>dt_Date = [], dt_DateTime = endTime, dt_TimeZone = timeZone\<rparr>,
                       ev_Status = [], ev_Attendees = []\<rparr>;
                     w5 = issue (CallInsert calendarID event) w4
                 in case Events_Insert srv calendarID event of
                      Inl e \<Rightarrow> (Inl (RemoteError ''unable to create event: '' e), w5)
                    | Inr created \<Rightarrow>
                        (Inr (), print (''Event created successfully! ID: '' @ ev_Id created
                                         @ [CHR 0x0A]) w5)))))))))"

text \<open>
  The body of the time gate of \<open>updateEvent\<close> (the statements under
  \<open>if strings.ToLower(updateTime) == "y"\<close>): it returns the event with the merged bounds.
  Reading \<open>event.Start.DateTime\<close> or \<open>event.End.DateTime\<close> through a nil pointer stops the
  program.
\<close>

definition updateTimes :: "Event \<Rightarrow> world \<Rightarrow> (error + Event) \<times> world" where
  "updateTimes event w =
     (case ev_Start event of
        None \<Rightarrow> (Inl NilDereference, w)
      | Some st \<Rightarrow>
     (case promptForInput (''Start (YYYY-MM-DD HH:MM, current: '' @ dt_DateTime st @ ''): '') w of
        (Inl e, w1) \<Rightarrow> (Inl e, w1)
      | (Inr startInput, w1) \<Rightarrow>
     (case (if startInput \<noteq> [] then
              (case parseTime startInput of
                 Inl e \<Rightarrow> Inl e
               | Inr startTime \<Rightarrow> Inr (st\<lparr>dt_DateTime := startTime\<rparr>))
            else Inr st) of
        Inl e \<Rightarrow> (Inl e, w1)
      | Inr st' \<Rightarrow>
     (case ev_End event of
        None \<Rightarrow> (Inl NilDereference, w1)
      | Some en \<Rightarrow>
     (case promptForInput (''End (YYYY-MM-DD HH:MM, current: '' @ dt_DateTime en @ ''): '') w1 of
        (Inl e, w2) \<Rightarrow> (Inl e, w2)
      | (Inr endInput, w2) \<Rightarrow>
     (case (if endInput \<noteq> [] then
              (case parseTime endInput of
                 Inl e \<Rightarrow> Inl e
               | Inr endTime \<Rightarrow> Inr (en\<lparr>dt_DateTime := endTime\<rparr>))
            else Inr en) of
        Inl e \<Rightarrow> (Inl e, w2)
      | Inr en' \<Rightarrow>
          (let start = parseOrZero RFC3339 (dt_DateTime st');
               end = parseOrZero RFC3339 (dt_DateTime en')
           in if Before end start
              then (Inl (ValidationError ''end time cannot be before start time''), w2)
              else (Inr (event\<lparr>ev_Start := Some st', ev_End := Some en'\<rparr>), w2))))))))"

definition updateEvent :: "service \<Rightarrow> string \<Rightarrow> world \<Rightarrow> (error + unit) \<times> world" where
  "updateEvent srv calendarID w =
     (case promptForInput ''Event ID: '' w of
        (Inl e, w1) \<Rightarrow> (Inl e, w1)
      | (Inr id', w1) \<Rightarrow>
     (let w2 = issue (CallGet calendarID id') w1 in
      case Events_Get srv calendarID id' of
        Inl e \<Rightarrow> (Inl (RemoteError ''unable to retrieve event for update: '' e), w2)
      | Inr event \<Rightarrow>
     (case promptForInput ''New title (leave empty to keep current): ''
             (print (''Current title: '' @ ev_Summary event @ [CHR 0x0A]) w2) of
        (Inl e, w3) \<Rightarrow> (Inl e, w3)
      | (Inr title, w3) \<Rightarrow>
     (let event1 = (if title \<noteq> [] then event\<lparr>ev_Summary := title\<rparr> else event) in
      case promptForInput ''New description (leave empty to keep current): ''
             (print (''Current description: '' @ ev_Description event1 @ [CHR 0x0A]) w3) of
        (Inl e, w4) \<Rightarrow> (Inl e, w4)
      | (Inr desc, w4) \<Rightarrow>
     (let event2 = (if desc \<noteq> [] then event1\<lparr>ev_Description := desc\<rparr> else event1) in
      case promptForInput ''Update time? (y/n): '' w4 of
        (Inl e, w5) \<Rightarrow> (Inl e, w5)
      | (Inr updateTime, w5) \<Rightarrow>
     (case (if ToLower updateTime = ''y'' then updateTimes event2 w5 else (Inr event2, w5)) of
        (Inl e, w6) \<Rightarrow> (Inl e, w6)
      | (Inr event3, w6) \<Rightarrow>
          (let w7 = issue (CallUpdate calendarID id' event3) w6 in
           case Events_Update srv calendarID id' event3 of
             Inl e \<Rightarrow> (Inl (RemoteError ''unable to update event: '' e), w7)
           | Inr updated \<Rightarrow>
               (Inr (), print (''Event updated successfully! ID: '' @ ev_Id updated
                                @ [CHR 0x0A]) w7))))))))"

section \<open>The civil format, as the specification words it\<close>

text \<open>
  The fixed format \<open>YYYY-MM-DD HH:MM\<close>: sixteen characters, digits with the separators
  \<open>-\<close>, \<open>-\<close>, a space and \<open>:\<close> at their places. A string of that shape is a valid civil
  date-time when the month is 1..12, the day exists in that month of that year, the hour is
  at most 23 and the minute at most 59.
\<close>

definition matchesFormat :: "string \<Rightarrow> bool" where
  "matchesFormat s =
     (length s = 16
      \<and> list_all isDigit (take 4 s) \<and> s ! 4 = CHR ''-''
      \<and> list_all isDigit (take 2 (drop 5 s)) \<and> s ! 7 = CHR ''-''
      \<and> list_all isDigit (take 2 (drop 8 s)) \<and> s ! 10 = CHR '' ''
      \<and> list_all isDigit (take 2 (drop 11 s)) \<and> s ! 13 = CHR '':''
      \<and> list_all isDigit (take 2 (drop 14 s)))"

definition validCivil :: "string \<Rightarrow> bool" where
  "validCivil s =
     (matchesFormat s
      \<and> (let year = int (decimalValue (take 4 s));
              month = int (decimalValue (take 2 (drop 5 s)));
              day = int (decimalValue (take 2 (drop 8 s)));
              hour = int (decimalValue (take 2 (drop 11 s)));
              minute = int (decimalValue (take 2 (drop 14 s)))
          in 1 \<le> month \<and> month \<le> 12 \<and> 1 \<le> day \<and> day \<le> daysIn month year
             \<and> hour \<le> 23 \<and> minute \<le> 59))"

text \<open>
  The wider set of inputs: the date, then one or more spaces, then the time with a one- or
  two-digit hour. \<open>collapseCivil\<close> brings such an input to the fixed format: the run of
  spaces after the date becomes the single space and a one-digit hour gets its leading zero.
\<close>

definition collapseCivil :: "string \<Rightarrow> string" where
  "collapseCivil s =
     (let r = dropWhile (\<lambda>c. c = CHR '' '') (drop 11 s)
      in take 11 s @ (if length r = 4 then CHR ''0'' # r else r))"

definition acceptedCivil :: "string \<Rightarrow> bool" where
  "acceptedCivil s = validCivil (collapseCivil s)"

section \<open>Sample data\<close>

definition exCalendars :: "CalendarListEntry list" where
  "exCalendars = [\<lparr>cal_Id = ''cal_a'', cal_Summary = ''Work''\<rparr>,
                  \<lparr>cal_Id = ''cal_b'', cal_Summary = ''Home''\<rparr>,
                  \<lparr>cal_Id = ''cal_c'', cal_Summary = ''Team''\<rparr>]"

definition exEvent :: Event where
  "exEvent = \<lparr>ev_Id = ''evt1'', ev_Summary = ''Standup'', ev_Description = ''Daily'',
     ev_Start = Some \<lparr>dt_Date = [], dt_DateTime = ''2024-03-15T09:30:00+05:30'', dt_TimeZone = ''Asia/Kolkata''\<rparr>,
     ev_End = Some \<lparr>dt_Date = [], dt_DateTime = ''2024-03-15T10:00:00+05:30'', dt_TimeZone = ''Asia/Kolkata''\<rparr>,
     ev_Status = ''confirmed'', ev_Attendees = []\<rparr>"

definition exAllDay :: Event where
  "exAllDay = \<lparr>ev_Id = ''evt2'', ev_Summary = ''Holiday'', ev_Description = [],
     ev_Start = Some \<lparr>dt_Date = ''2024-03-15'', dt_DateTime = [], dt_TimeZone = []\<rparr>,
     ev_End = Some \<lparr>dt_Date = ''2024-03-16'', dt_DateTime = [], dt_TimeZone = []\<rparr>,
     ev_Status = ''confirmed'', ev_Attendees = []\<rparr>"

definition exService :: service where
  "exService = \<lparr>CalendarList_List = Inr exCalendars,
     Events_Get = (\<lambda>c i. if i = ''evt1'' then Inr exEvent
                          else if i = ''evt2'' then Inr exAllDay else Inl ''Not Found''),
     Events_Insert = (\<lambda>c e. Inr (e\<lparr>ev_Id := ''new1''\<rparr>)),
     Events_Update = (\<lambda>c i e. Inr e),
     Events_Delete = (\<lambda>c i. None)\<rparr>"

definition exWorld :: "string list \<Rightarrow> world" where
  "exWorld ls = \<lparr>stdin = ls, stdout = [], calls = []\<rparr>"

section \<open>Properties\<close>

subsection \<open>Console and strings\<close>

lemma prompt_cons:
  "stdin w = l # ls \<Longrightarrow>
   promptForInput msg w = (Inr (TrimSpace l), w\<lparr>stdin := ls, stdout := stdout w @ [msg]\<rparr>)"
  by (simp add: promptForInput_def print_def Let_def)

lemma prompt_nil:
  "stdin w = [] \<Longrightarrow> promptForInput msg w = (Inl ReadError, w\<lparr>stdout := stdout w @ [msg]\<rparr>)"
  by (simp add: promptForInput_def print_def Let_def)

lemma of_char_lowerByte:
  "(of_char (lowerByte c) :: nat) =
     (if 65 \<le> (of_char c :: nat) \<and> (of_char c :: nat) \<le> 90 then of_char c + 32 else of_char c)"
  by (simp add: lowerByte_def)

lemma char_eq_of_char: "c = d \<longleftrightarrow> (of_char c :: nat) = of_char d"
  by simp

lemma lowerByte_y: "lowerByte c = CHR ''y'' \<longleftrightarrow> c = CHR ''y'' \<or> c = CHR ''Y''"
  unfolding char_eq_of_char [of _ "CHR ''y''"] char_eq_of_char [of _ "CHR ''Y''"] of_char_lowerByte
  by auto

lemma ToLower_y: "ToLower s = ''y'' \<longleftrightarrow> s = ''y'' \<or> s = ''Y''"
  by (cases s) (auto simp: ToLower_def lowerByte_y)

subsection \<open>Calendar selector\<close>

lemma listCalendars_ok:
  "CalendarList_List srv = Inr cals \<Longrightarrow>
   \<exists>w1. listCalendars srv w = (Inr cals, w1) \<and> stdin w1 = stdin w"
proof -
  have pc: "stdin (printCalendars i cs v) = stdin v" for i cs v
    by (induction cs arbitrary: i v) (simp_all add: print_def)
  assume "CalendarList_List srv = Inr cals"
  then show ?thesis
    by (simp add: listCalendars_def Let_def print_def issue_def pc)
qed

text \<open>
  Whatever number the operator types, the selector answers with the first calendar: the
  value compared with the length of the list is the count of items \<open>Sscanf\<close> parsed,
  which is 1, not the number that was typed.
\<close>

lemma selectCalendar_numeric:
  assumes "CalendarList_List srv = Inr cals" and "cals \<noteq> []"
    and "stdin w = l # ls" and "scanInt (TrimSpace l) = Some v"
  shows "fst (selectCalendar srv w) = Inr (cal_Id (hd cals))"
proof -
  obtain w1 where w1: "listCalendars srv w = (Inr cals, w1)" "stdin w1 = l # ls"
    using listCalendars_ok [OF assms(1), of w] assms(3) by auto
  show ?thesis
    using assms(2,4) w1
    by (cases cals) (simp_all add: selectCalendar_def prompt_cons Sscanf_d_def)
qed

text \<open>
  C1. Against the three calendars \<open>cal_a\<close>, \<open>cal_b\<close>, \<open>cal_c\<close> the input \<open>2\<close> is answered
  with \<open>cal_a\<close>, not with the second identifier, and the input \<open>7\<close> is answered with
  \<open>cal_a\<close> too instead of the error for an invalid calendar number; the input
  \<open>cal_abcdef\<close>, which is no number, is returned as it is.
\<close>

theorem selectCalendar_typed_number_ignored:
  "fst (selectCalendar exService (exWorld [''2''])) = Inr ''cal_a''
   \<and> fst (selectCalendar exService (exWorld [''7''])) = Inr ''cal_a''
   \<and> fst (selectCalendar exService (exWorld [''cal_abcdef''])) = Inr ''cal_abcdef''"
  by (simp add: selectCalendar_def listCalendars_def exService_def exCalendars_def exWorld_def
      promptForInput_def print_def issue_def Sscanf_d_def scanInt_def TrimSpace_def isDigit_def
      decimalValue_def digitVal_def asciiSpace_def Let_def)

subsection \<open>Delete\<close>

text \<open>
  C3. Delete reads the identifier and the confirmation. When the trimmed confirmation is
  neither \<open>y\<close> nor \<open>Y\<close>, no remote request is issued, the last text printed is the
  cancellation notice and the operation returns without error; when it is \<open>y\<close> or \<open>Y\<close>,
  exactly the remote delete of that identifier is issued.
\<close>

theorem deleteEvent_confirmation:
  assumes "stdin w = idLine # confirmLine # rest"
  shows "(TrimSpace confirmLine \<notin> {''y'', ''Y''} \<longrightarrow>
           (\<exists>w'. deleteEvent srv calendarID w = (Inr (), w') \<and> calls w' = calls w
                 \<and> last (stdout w') = ''Deletion cancelled.'' @ [CHR 0x0A]))
       \<and> (TrimSpace confirmLine \<in> {''y'', ''Y''} \<longrightarrow>
           calls (snd (deleteEvent srv calendarID w))
             = calls w @ [CallDelete calendarID (TrimSpace idLine)])"
  using assms
  by (auto simp: deleteEvent_def prompt_cons ToLower_y print_def issue_def Let_def
           split: option.splits)

theorem deleteEvent_confirmation_witness:
  "(\<exists>w'. deleteEvent exService ''primary'' (exWorld [''evt1'', ''n'']) = (Inr (), w')
         \<and> calls w' = [] \<and> last (stdout w') = ''Deletion cancelled.'' @ [CHR 0x0A])
   \<and> calls (snd (deleteEvent exService ''primary'' (exWorld [''evt1'', '' Y ''])))
       = [CallDelete ''primary'' ''evt1'']"
  using deleteEvent_confirmation [of "exWorld [''evt1'', ''n'']" "''evt1''" "''n''" "[]"
                                     exService "''primary''"]
        deleteEvent_confirmation [of "exWorld [''evt1'', '' Y '']" "''evt1''" "'' Y ''" "[]"
                                     exService "''primary''"]
  by (simp add: exWorld_def TrimSpace_def asciiSpace_def)

subsection \<open>Update\<close>

lemma updateEvent_to_gate:
  assumes "stdin w = idLine # titleLine # descLine # gateLine # rest"
    and "Events_Get srv calendarID (TrimSpace idLine) = Inr event"
  shows "\<exists>w5. stdin w5 = rest \<and> calls w5 = calls w @ [CallGet calendarID (TrimSpace idLine)]
     \<and> updateEvent srv calendarID w =
       (let event2 = event\<lparr>ev_Summary := (if TrimSpace titleLine = [] then ev_Summary event else TrimSpace titleLine),
                           ev_Description := (if TrimSpace descLine = [] then ev_Description event else TrimSpace descLine)\<rparr>
        in case (if ToLower (TrimSpace gateLine) = ''y'' then updateTimes event2 w5 else (Inr event2, w5)) of
        (Inl e, w6) \<Rightarrow> (Inl e, w6)
      | (Inr event3, w6) \<Rightarrow>
          (let w7 = issue (CallUpdate calendarID (TrimSpace idLine) event3) w6 in
           case Events_Update srv calendarID (TrimSpace idLine) event3 of
             Inl e \<Rightarrow> (Inl (RemoteError ''unable to update event: '' e), w7)
           | Inr updated \<Rightarrow>
               (Inr (), print (''Event updated successfully! ID: '' @ ev_Id updated
                                @ [CHR 0x0A]) w7)))"
proof -
  let ?w5 = "w\<lparr>calls := calls w @ [CallGet calendarID (TrimSpace idLine)], stdin := rest,
               stdout := stdout w @ [''Event ID: '', ''Current title: '' @ ev_Summary event @ [CHR 0x0A],
                  ''New title (leave empty to keep current): '',
                  ''Current description: '' @ ev_Description event @ [CHR 0x0A],
                  ''New description (leave empty to keep current): '', ''Update time? (y/n): '']\<rparr>"
  have "stdin ?w5 = rest \<and> calls ?w5 = calls w @ [CallGet calendarID (TrimSpace idLine)]"
    by simp
  moreover have "updateEvent srv calendarID w =
       (let event2 = event\<lparr>ev_Summary := (if TrimSpace titleLine = [] then ev_Summary event else TrimSpace titleLine),
                           ev_Description := (if TrimSpace descLine = [] then ev_Description event else TrimSpace descLine)\<rparr>
        in case (if ToLower (TrimSpace gateLine) = ''y'' then updateTimes event2 ?w5 else (Inr event2, ?w5)) of
        (Inl e, w6) \<Rightarrow> (Inl e, w6)
      | (Inr event3, w6) \<Rightarrow>
          (let w7 = issue (CallUpdate calendarID (TrimSpace idLine) event3) w6 in
           case Events_Update srv calendarID (TrimSpace idLine) event3 of
             Inl e \<Rightarrow> (Inl (RemoteError ''unable to update event: '' e), w7)
           | Inr updated \<Rightarrow>
               (Inr (), print (''Event updated successfully! ID: '' @ ev_Id updated
                                @ [CHR 0x0A]) w7)))"
    using assms
    by (cases "TrimSpace titleLine = []"; cases "TrimSpace descLine = []")
       (simp_all add: updateEvent_def prompt_cons Let_def issue_def print_def split: sum.splits)
  ultimately show ?thesis by blast
qed


lemma updateTimes_reach:
  assumes "stdin w = startLine # endLine # rest"
    and "ev_Start ev = Some st" and "ev_End ev = Some en"
    and "(if TrimSpace startLine = [] then Inr (dt_DateTime st) else parseTime (TrimSpace startLine)) = Inr ms"
    and "(if TrimSpace endLine = [] then Inr (dt_DateTime en) else parseTime (TrimSpace endLine)) = Inr me"
  shows "\<exists>w2. calls w2 = calls w \<and> stdin w2 = rest \<and>
     updateTimes ev w =
       (if Before (parseOrZero RFC3339 me) (parseOrZero RFC3339 ms)
        then (Inl (ValidationError ''end time cannot be before start time''), w2)
        else (Inr (ev\<lparr>ev_Start := Some (st\<lparr>dt_DateTime := ms\<rparr>),
                       ev_End := Some (en\<lparr>dt_DateTime := me\<rparr>)\<rparr>), w2))"
proof -
  let ?w2 = "w\<lparr>stdin := rest,
       stdout := stdout w @ [''Start (YYYY-MM-DD HH:MM, current: '' @ dt_DateTime st @ ''): '',
                             ''End (YYYY-MM-DD HH:MM, current: '' @ dt_DateTime en @ ''): '']\<rparr>"
  have "calls ?w2 = calls w \<and> stdin ?w2 = rest" by simp
  moreover have "updateTimes ev w =
       (if Before (parseOrZero RFC3339 me) (parseOrZero RFC3339 ms)
        then (Inl (ValidationError ''end time cannot be before start time''), ?w2)
        else (Inr (ev\<lparr>ev_Start := Some (st\<lparr>dt_DateTime := ms\<rparr>),
                       ev_End := Some (en\<lparr>dt_DateTime := me\<rparr>)\<rparr>), ?w2))"
    using assms
    by (cases "TrimSpace startLine = []"; cases "TrimSpace endLine = []")
       (simp_all add: updateTimes_def prompt_cons Let_def)
  ultimately show ?thesis by blast
qed

lemma prompt_calls: "promptForInput msg w = (r, w') \<Longrightarrow> calls w' = calls w"
  by (auto simp: promptForInput_def print_def Let_def split: list.splits)

lemma updateTimes_frame:
  assumes "updateTimes ev w = (r, w')"
  shows "calls w' = calls w \<and>
         (\<forall>ev'. r = Inr ev' \<longrightarrow> (\<exists>st en. ev' = ev\<lparr>ev_Start := Some st, ev_End := Some en\<rparr>))"
  using assms
  unfolding updateTimes_def Let_def
  by (auto split: option.splits prod.splits sum.splits if_splits dest!: prompt_calls)

lemma updateEvent_gate_declined:
  assumes "stdin w = idLine # titleLine # descLine # gateLine # rest"
    and "Events_Get srv calendarID (TrimSpace idLine) = Inr event"
    and "ToLower (TrimSpace gateLine) \<noteq> ''y''"
  shows "calls (snd (updateEvent srv calendarID w))
           = calls w @ [CallGet calendarID (TrimSpace idLine),
                        CallUpdate calendarID (TrimSpace idLine)
                          (event\<lparr>ev_Summary := (if TrimSpace titleLine = [] then ev_Summary event
                                                  else TrimSpace titleLine),
                                 ev_Description := (if TrimSpace descLine = [] then ev_Description event
                                                     else TrimSpace descLine)\<rparr>)]"
proof -
  let ?id = "TrimSpace idLine"
  let ?e2 = "event\<lparr>ev_Summary := (if TrimSpace titleLine = [] then ev_Summary event else TrimSpace titleLine),
                     ev_Description := (if TrimSpace descLine = [] then ev_Description event else TrimSpace descLine)\<rparr>"
  obtain w5 where w5: "calls w5 = calls w @ [CallGet calendarID ?id]"
    and run: "updateEvent srv calendarID w =
       (case (if ToLower (TrimSpace gateLine) = ''y'' then updateTimes ?e2 w5 else (Inr ?e2, w5)) of
        (Inl e, w6) \<Rightarrow> (Inl e, w6)
      | (Inr event3, w6) \<Rightarrow>
          (let w7 = issue (CallUpdate calendarID ?id event3) w6 in
           case Events_Update srv calendarID ?id event3 of
             Inl e \<Rightarrow> (Inl (RemoteError ''unable to update event: '' e), w7)
           | Inr updated \<Rightarrow>
               (Inr (), print (''Event updated successfully! ID: '' @ ev_Id updated
                                @ [CHR 0x0A]) w7)))"
    using updateEvent_to_gate [OF assms(1,2)] unfolding Let_def by blast
  show ?thesis
    using run w5 assms(3) by (simp add: Let_def issue_def print_def split: sum.splits)
qed

text \<open>
  C4. Update reads the identifier, the title, the description and the gate answer, and the
  fetch returns \<open>event\<close>. When the gate is declined the requests issued are the fetch and
  one Update whose event is the fetched one with the summary replaced only if the trimmed
  title line is not empty and the description replaced only if the trimmed description
  line is not empty: every other field, both time bounds included, is the fetched one.
  Whether or not the gate is entered, every event the operation submits has the fetched
  summary (description) when the title (description) line is blank, and the typed one
  otherwise.
\<close>

theorem updateEvent_text_fields:
  assumes "stdin w = idLine # titleLine # descLine # gateLine # rest"
    and "Events_Get srv calendarID (TrimSpace idLine) = Inr event"
  shows "(ToLower (TrimSpace gateLine) \<noteq> ''y'' \<longrightarrow>
            calls (snd (updateEvent srv calendarID w))
              = calls w @ [CallGet calendarID (TrimSpace idLine),
                           CallUpdate calendarID (TrimSpace idLine)
                             (event\<lparr>ev_Summary := (if TrimSpace titleLine = [] then ev_Summary event
                                                     else TrimSpace titleLine),
                                    ev_Description := (if TrimSpace descLine = [] then ev_Description event
                                                        else TrimSpace descLine)\<rparr>)])
       \<and> (\<forall>c i submitted.
             CallUpdate c i submitted \<in> set (drop (length (calls w)) (calls (snd (updateEvent srv calendarID w))))
             \<longrightarrow> ev_Summary submitted = (if TrimSpace titleLine = [] then ev_Summary event
                                           else TrimSpace titleLine)
                \<and> ev_Description submitted = (if TrimSpace descLine = [] then ev_Description event
                                                else TrimSpace descLine)
                \<and> ev_Id submitted = ev_Id event \<and> ev_Status submitted = ev_Status event
                \<and> ev_Attendees submitted = ev_Attendees event)"
proof -
  let ?id = "TrimSpace idLine"
  let ?e2 = "event\<lparr>ev_Summary := (if TrimSpace titleLine = [] then ev_Summary event else TrimSpace titleLine),
                     ev_Description := (if TrimSpace descLine = [] then ev_Description event else TrimSpace descLine)\<rparr>"
  obtain w5 where w5: "stdin w5 = rest" "calls w5 = calls w @ [CallGet calendarID ?id]"
    and run: "updateEvent srv calendarID w =
       (case (if ToLower (TrimSpace gateLine) = ''y'' then updateTimes ?e2 w5 else (Inr ?e2, w5)) of
        (Inl e, w6) \<Rightarrow> (Inl e, w6)
      | (Inr event3, w6) \<Rightarrow>
          (let w7 = issue (CallUpdate calendarID ?id event3) w6 in
           case Events_Update srv calendarID ?id event3 of
             Inl e \<Rightarrow> (Inl (RemoteError ''unable to update event: '' e), w7)
           | Inr updated \<Rightarrow>
               (Inr (), print (''Event updated successfully! ID: '' @ ev_Id updated
                                @ [CHR 0x0A]) w7)))"
    using updateEvent_to_gate [OF assms] unfolding Let_def by blast
  show ?thesis
  proof (cases "ToLower (TrimSpace gateLine) = ''y''")
    case False
    then show ?thesis
      using run w5 by (simp add: Let_def issue_def print_def split: sum.splits)
  next
    case True
    obtain r w6 where ut: "updateTimes ?e2 w5 = (r, w6)" by (cases "updateTimes ?e2 w5")
    from updateTimes_frame [OF ut]
    have fr: "calls w6 = calls w5"
      "\<And>ev'. r = Inr ev' \<Longrightarrow> ev_Summary ev' = ev_Summary ?e2 \<and> ev_Description ev' = ev_Description ?e2
                  \<and> ev_Id ev' = ev_Id ?e2 \<and> ev_Status ev' = ev_Status ?e2
                  \<and> ev_Attendees ev' = ev_Attendees ?e2"
      by auto
    show ?thesis
    proof (cases r)
      case (Inl e)
      then show ?thesis using True run ut fr(1) w5 by simp
    next
      case (Inr ev')
      then show ?thesis
        using True run ut fr(1) fr(2) [OF Inr] w5
        by (auto simp: Let_def issue_def print_def split: sum.splits)
    qed
  qed
qed




lemma updateEvent_gate_entered:
  assumes "stdin w = idLine # titleLine # descLine # gateLine # startLine # endLine # rest"
    and "Events_Get srv calendarID (TrimSpace idLine) = Inr event"
    and "ToLower (TrimSpace gateLine) = ''y''"
    and "ev_Start event = Some st" and "ev_End event = Some en"
    and "(if TrimSpace startLine = [] then Inr (dt_DateTime st) else parseTime (TrimSpace startLine)) = Inr ms"
    and "(if TrimSpace endLine = [] then Inr (dt_DateTime en) else parseTime (TrimSpace endLine)) = Inr me"
  shows "(Before (parseOrZero RFC3339 me) (parseOrZero RFC3339 ms) \<longrightarrow>
            fst (updateEvent srv calendarID w) = Inl (ValidationError ''end time cannot be before start time'')
            \<and> calls (snd (updateEvent srv calendarID w)) = calls w @ [CallGet calendarID (TrimSpace idLine)])
       \<and> (\<not> Before (parseOrZero RFC3339 me) (parseOrZero RFC3339 ms) \<longrightarrow>
            calls (snd (updateEvent srv calendarID w))
              = calls w @ [CallGet calendarID (TrimSpace idLine),
                           CallUpdate calendarID (TrimSpace idLine)
                             (event\<lparr>ev_Summary := (if TrimSpace titleLine = [] then ev_Summary event
                                                     else TrimSpace titleLine),
                                    ev_Description := (if TrimSpace descLine = [] then ev_Description event
                                                        else TrimSpace descLine),
                                    ev_Start := Some (st\<lparr>dt_DateTime := ms\<rparr>),
                                    ev_End := Some (en\<lparr>dt_DateTime := me\<rparr>)\<rparr>)])"
proof -
  let ?id = "TrimSpace idLine"
  let ?e2 = "event\<lparr>ev_Summary := (if TrimSpace titleLine = [] then ev_Summary event else TrimSpace titleLine),
                     ev_Description := (if TrimSpace descLine = [] then ev_Description event else TrimSpace descLine)\<rparr>"
  obtain w5 where w5: "stdin w5 = startLine # endLine # rest" "calls w5 = calls w @ [CallGet calendarID ?id]"
    and run: "updateEvent srv calendarID w =
       (case (if ToLower (TrimSpace gateLine) = ''y'' then updateTimes ?e2 w5 else (Inr ?e2, w5)) of
        (Inl e, w6) \<Rightarrow> (Inl e, w6)
      | (Inr event3, w6) \<Rightarrow>
          (let w7 = issue (CallUpdate calendarID ?id event3) w6 in
           case Events_Update srv calendarID ?id event3 of
             Inl e \<Rightarrow> (Inl (RemoteError ''unable to update event: '' e), w7)
           | Inr updated \<Rightarrow>
               (Inr (), print (''Event updated successfully! ID: '' @ ev_Id updated
                                @ [CHR 0x0A]) w7)))"
    using updateEvent_to_gate [OF assms(1,2)] unfolding Let_def by blast
  have se: "ev_Start ?e2 = Some st" "ev_End ?e2 = Some en" using assms(4,5) by simp_all
  obtain w6 where w6: "calls w6 = calls w5"
    and ut: "updateTimes ?e2 w5 =
       (if Before (parseOrZero RFC3339 me) (parseOrZero RFC3339 ms)
        then (Inl (ValidationError ''end time cannot be before start time''), w6)
        else (Inr (?e2\<lparr>ev_Start := Some (st\<lparr>dt_DateTime := ms\<rparr>),
                       ev_End := Some (en\<lparr>dt_DateTime := me\<rparr>)\<rparr>), w6))"
    using updateTimes_reach [OF w5(1) se assms(6,7)] by blast
  show ?thesis
    using run ut w6 w5(2) assms(3)
    by (simp add: Let_def issue_def print_def split: sum.splits)
qed

text \<open>
  C9. Update reads the identifier, title, description and gate answer and the fetch
  succeeds. When the gate is declined, or when it is entered and its check is reached
  (both bounds present, both time lines read, each non-blank one parsed) and passes, the
  requests issued are the fetch followed by exactly one Update. With blank title and
  description and the gate declined the event submitted is the fetched event itself.
\<close>

theorem updateEvent_submits_once:
  assumes "stdin w = idLine # titleLine # descLine # gateLine # rest"
    and "Events_Get srv calendarID (TrimSpace idLine) = Inr event"
    and "ToLower (TrimSpace gateLine) \<noteq> ''y'' \<or>
         (\<exists>startLine endLine rest' st en ms me.
            rest = startLine # endLine # rest' \<and> ev_Start event = Some st \<and> ev_End event = Some en
            \<and> (if TrimSpace startLine = [] then Inr (dt_DateTime st) else parseTime (TrimSpace startLine)) = Inr ms
            \<and> (if TrimSpace endLine = [] then Inr (dt_DateTime en) else parseTime (TrimSpace endLine)) = Inr me
            \<and> \<not> Before (parseOrZero RFC3339 me) (parseOrZero RFC3339 ms))"
  shows "\<exists>submitted.
           calls (snd (updateEvent srv calendarID w))
             = calls w @ [CallGet calendarID (TrimSpace idLine),
                          CallUpdate calendarID (TrimSpace idLine) submitted]
           \<and> (TrimSpace titleLine = [] \<and> TrimSpace descLine = [] \<and> ToLower (TrimSpace gateLine) \<noteq> ''y''
                \<longrightarrow> submitted = event)"
proof (cases "ToLower (TrimSpace gateLine) = ''y''")
  case False
  let ?e2 = "event\<lparr>ev_Summary := (if TrimSpace titleLine = [] then ev_Summary event else TrimSpace titleLine),
                     ev_Description := (if TrimSpace descLine = [] then ev_Description event else TrimSpace descLine)\<rparr>"
  have "calls (snd (updateEvent srv calendarID w))
          = calls w @ [CallGet calendarID (TrimSpace idLine), CallUpdate calendarID (TrimSpace idLine) ?e2]"
    by (rule updateEvent_gate_declined [OF assms(1,2) False])
  moreover have "TrimSpace titleLine = [] \<and> TrimSpace descLine = [] \<longrightarrow> ?e2 = event"
    by simp
  ultimately show ?thesis by blast
next
  case True
  from assms(3) True obtain startLine endLine rest' st en ms me where
    h: "rest = startLine # endLine # rest'" "ev_Start event = Some st" "ev_End event = Some en"
       "(if TrimSpace startLine = [] then Inr (dt_DateTime st) else parseTime (TrimSpace startLine)) = Inr ms"
       "(if TrimSpace endLine = [] then Inr (dt_DateTime en) else parseTime (TrimSpace endLine)) = Inr me"
       "\<not> Before (parseOrZero RFC3339 me) (parseOrZero RFC3339 ms)"
    by blast
  from updateEvent_gate_entered [OF assms(1) [unfolded h(1)] assms(2) True h(2-5)] h(6)
  have "\<exists>submitted. calls (snd (updateEvent srv calendarID w))
          = calls w @ [CallGet calendarID (TrimSpace idLine), CallUpdate calendarID (TrimSpace idLine) submitted]"
    by blast
  with True show ?thesis by blast
qed



lemma TrimSpace_samples:
  "TrimSpace ''evt1'' = ''evt1''" "TrimSpace ''evt2'' = ''evt2''" "TrimSpace [] = []"
  "TrimSpace ''n'' = ''n''" "TrimSpace ''y'' = ''y''" "TrimSpace '' Y '' = ''Y''"
  "TrimSpace ''Retro'' = ''Retro''"
  "TrimSpace ''2024-03-15 11:00'' = ''2024-03-15 11:00''"
  "TrimSpace ''2024-03-15 10:00'' = ''2024-03-15 10:00''"
  by (simp_all add: TrimSpace_def asciiSpace_def)

theorem updateEvent_text_fields_witness:
  "calls (snd (updateEvent exService ''primary'' (exWorld [''evt1'', ''Retro'', [], ''n''])))
     = [CallGet ''primary'' ''evt1'',
        CallUpdate ''primary'' ''evt1'' (exEvent\<lparr>ev_Summary := ''Retro''\<rparr>)]"
proof -
  have 1: "stdin (exWorld [''evt1'', ''Retro'', [], ''n'']) = ''evt1'' # ''Retro'' # [] # ''n'' # []"
    by (simp add: exWorld_def)
  have 2: "Events_Get exService ''primary'' (TrimSpace ''evt1'') = Inr exEvent"
    by (simp add: exService_def TrimSpace_samples)
  have 3: "ToLower (TrimSpace ''n'') \<noteq> ''y''"
    by (simp add: TrimSpace_samples ToLower_y)
  from updateEvent_text_fields [OF 1 2] 3 show ?thesis
    by (simp add: TrimSpace_samples exWorld_def)
qed

theorem updateEvent_submits_once_witness:
  "calls (snd (updateEvent exService ''primary'' (exWorld [''evt1'', [], [], ''n''])))
     = [CallGet ''primary'' ''evt1'', CallUpdate ''primary'' ''evt1'' exEvent]"
proof -
  have 1: "stdin (exWorld [''evt1'', [], [], ''n'']) = ''evt1'' # [] # [] # ''n'' # []"
    by (simp add: exWorld_def)
  have 2: "Events_Get exService ''primary'' (TrimSpace ''evt1'') = Inr exEvent"
    by (simp add: exService_def TrimSpace_samples)
  have 3: "ToLower (TrimSpace ''n'') \<noteq> ''y''"
    by (simp add: TrimSpace_samples ToLower_y)
  from updateEvent_submits_once [OF 1 2 disjI1 [OF 3]] 3 show ?thesis
    by (auto simp: TrimSpace_samples exWorld_def)
qed


end
